theory Spec2Isabelle
  imports Complex_Main "HOL-Library.Multiset"
begin

section \<open>Health-risk engine of \<^verbatim>\<open>ml-model/local_server.py\<close>\<close>

text \<open>
  The theory embeds the feature extractor (\<^verbatim>\<open>compute_features\<close>), the rule-based scorer
  (\<^verbatim>\<open>calculate_risk_score\<close>) and the response builder
  (\<^verbatim>\<open>_generate_prediction_response\<close>) of \<^verbatim>\<open>src/ml-model/local_server.py\<close>; the
  scorer and the response logic of \<^verbatim>\<open>local_server_realdata.py\<close> are textually the same,
  and so is its feature extractor but for the line that counts the days with data, which
  is embedded as \<open>unique_days_realdata\<close>.

  Numbers. Python integers are \<^typ>\<open>int\<close>. A Python float is modelled by the real number
  it holds. In \<^verbatim>\<open>compute_trend\<close>, in the factor impacts, in the forecast and in \<^verbatim>\<open>round\<close>
  every operation is the exact operation followed by rounding to binary64 (nearest, ties
  to even), as the machine does it, and a decimal literal is the double nearest to it.
  The mean, the standard deviation and the accumulation of the risk score are kept exact:
  what is proved of them does not depend on the last bit. Every place where the
  interpreter raises is a branch of the model: division by zero, \<^verbatim>\<open>max\<close>/\<^verbatim>\<open>min\<close> of an empty
  list, and the range check of the float power operator. Values beyond the double range
  (\<^verbatim>\<open>inf\<close> and \<^verbatim>\<open>nan\<close>) are not values of the model.
\<close>

subsection \<open>Feature vector\<close>

text \<open>The dictionary returned by \<^verbatim>\<open>compute_features\<close>, with its 17 keys.\<close>

record features =
  heart_rate_mean :: real
  heart_rate_std :: real
  heart_rate_max :: real
  heart_rate_min :: real
  steps_mean :: real
  steps_std :: real
  steps_total :: real
  sleep_hours_mean :: real
  sleep_hours_std :: real
  calories_mean :: real
  calories_std :: real
  age :: int
  gender_encoded :: int
  days_with_data :: nat
  trend_heart_rate :: real
  trend_steps :: real
  trend_sleep :: real

subsection \<open>Risk score (\<^verbatim>\<open>calculate_risk_score\<close>)\<close>

text \<open>
  The source threads one accumulator \<^verbatim>\<open>risk\<close> through six \<^verbatim>\<open>if/elif\<close> chains and three
  single \<^verbatim>\<open>if\<close>s; each block below is one of them, in the source's order.
\<close>

definition heart_rate_risk :: "real \<Rightarrow> real \<Rightarrow> real" where
  "heart_rate_risk hr_mean risk =
     (if hr_mean > 100 then risk + 0.30
      else if hr_mean > 90 then risk + 0.25
      else if hr_mean > 80 then risk + 0.15
      else if hr_mean < 50 then risk + 0.20
      else if hr_mean < 60 then risk + 0.10
      else risk)"

definition steps_risk :: "real \<Rightarrow> real \<Rightarrow> real" where
  "steps_risk steps_mean' risk =
     (if steps_mean' < 3000 then risk + 0.30
      else if steps_mean' < 5000 then risk + 0.20
      else if steps_mean' < 7000 then risk + 0.10
      else risk)"

definition sleep_risk :: "real \<Rightarrow> real \<Rightarrow> real" where
  "sleep_risk sleep_mean risk =
     (if sleep_mean < 5 then risk + 0.20
      else if sleep_mean < 6 then risk + 0.15
      else if sleep_mean < 7 then risk + 0.10
      else if sleep_mean > 10 then risk + 0.10
      else risk)"

definition calories_risk :: "real \<Rightarrow> real \<Rightarrow> real" where
  "calories_risk cal_mean risk =
     (if cal_mean > 3000 then risk + 0.10
      else if cal_mean > 2800 then risk + 0.05
      else if cal_mean < 1500 then risk + 0.08
      else risk)"

definition age_risk :: "int \<Rightarrow> real \<Rightarrow> real" where
  "age_risk age' risk =
     (if age' > 60 then risk + 0.10
      else if age' > 50 then risk + 0.05
      else if age' < 18 then risk + 0.03
      else risk)"

definition trend_penalties :: "features \<Rightarrow> real \<Rightarrow> real" where
  "trend_penalties f risk =
     (let risk = (if trend_heart_rate f > 0.5 then risk + 0.05 else risk);
          risk = (if trend_steps f < - 50 then risk + 0.05 else risk);
          risk = (if trend_sleep f < - 0.1 then risk + 0.05 else risk)
      in risk)"

definition calculate_risk_score :: "features \<Rightarrow> real" where
  "calculate_risk_score f =
     (let risk = 0.0;
          risk = heart_rate_risk (heart_rate_mean f) risk;
          risk = steps_risk (steps_mean f) risk;
          risk = sleep_risk (sleep_hours_mean f) risk;
          risk = calories_risk (calories_mean f) risk;
          risk = age_risk (age f) risk;
          risk = trend_penalties f risk
      in max 0.0 (min 1.0 risk))"





subsection \<open>Risk level\<close>

text \<open>
  The first statement of \<^verbatim>\<open>_generate_prediction_response\<close> (and of
  \<^verbatim>\<open>_generate_realistic_prediction\<close>): \<^verbatim>\<open>if risk_score < 0.3: 'low' elif risk_score < 0.6:
  'medium' else: 'high'\<close>.
\<close>

definition risk_level_of :: "real \<Rightarrow> string" where
  "risk_level_of risk_score =
     (if risk_score < 0.3 then ''low''
      else if risk_score < 0.6 then ''medium''
      else ''high'')"

subsection \<open>Exceptions\<close>

text \<open>
  The exceptions the interpreter can raise inside the modelled functions, and the
  sequencing of a computation that may raise: the first exception aborts the rest.
\<close>

datatype py_error = ZeroDivisionError | ValueError | OverflowError

definition bind_err :: "py_error + 'a \<Rightarrow> ('a \<Rightarrow> py_error + 'b) \<Rightarrow> py_error + 'b" where
  "bind_err m k = (case m of Inl e \<Rightarrow> Inl e | Inr v \<Rightarrow> k v)"

text \<open>\<^verbatim>\<open>a / b\<close>: true division raises on a zero divisor.\<close>

definition py_truediv :: "real \<Rightarrow> real \<Rightarrow> py_error + real" where
  "py_truediv a b = (if b = 0 then Inl ZeroDivisionError else Inr (a / b))"

text \<open>\<^verbatim>\<open>max(arr)\<close> and \<^verbatim>\<open>min(arr)\<close>: a left-to-right scan, \<^verbatim>\<open>ValueError\<close> on an empty list.\<close>

definition py_max :: "real list \<Rightarrow> py_error + real" where
  "py_max arr = (case arr of [] \<Rightarrow> Inl ValueError | x # xs \<Rightarrow> Inr (fold max xs x))"

definition py_min :: "real list \<Rightarrow> py_error + real" where
  "py_min arr = (case arr of [] \<Rightarrow> Inl ValueError | x # xs \<Rightarrow> Inr (fold min xs x))"

text \<open>
  \<^verbatim>\<open>x ** 2\<close> on a float: CPython's \<^verbatim>\<open>float_pow\<close> raises \<^verbatim>\<open>OverflowError\<close> when the result is
  infinite, that is when the square rounds to infinity; for binary64 that is from
  \<open>2^1024 - 2^970\<close> on (half-way between the largest double and \<open>2^1024\<close>). The product
  \<^verbatim>\<open>x * x\<close> would return \<^verbatim>\<open>inf\<close> instead of raising.
\<close>

definition float_overflow :: real where
  "float_overflow = 2 ^ 1024 - 2 ^ 970"

definition py_pow2 :: "real \<Rightarrow> py_error + real" where
  "py_pow2 x = (if float_overflow \<le> x * x then Inl OverflowError else Inr (x * x))"

subsection \<open>Binary64 arithmetic\<close>

text \<open>
  Rounding to the nearest integer, a tie going to the even one.
\<close>

definition round_half_even :: "real \<Rightarrow> int" where
  "round_half_even y =
     (let lo = \<lfloor>y\<rfloor>; d = y - of_int lo
      in if d < 1 / 2 then lo else if 1 / 2 < d then lo + 1 else if even lo then lo else lo + 1)"

text \<open>
  Rounding a real to binary64: the exponent of \<open>x\<close> is that of its leading bit, not below
  the least normal exponent -1022; the doubles near \<open>x\<close> are the multiples of the quantum
  \<open>2^(exponent - 52)\<close>, and \<open>fl x\<close> is the nearest of them, a tie going to the even
  multiple. Below \<open>2^-1022\<close> the quantum is \<open>2^-1074\<close> (subnormal numbers). The exponent has
  no upper limit here: the machine's \<^verbatim>\<open>inf\<close> is not modelled.
\<close>

definition float_exponent :: "real \<Rightarrow> int" where
  "float_exponent x = max \<lfloor>log 2 \<bar>x\<bar>\<rfloor> (- 1022)"

definition quantum :: "real \<Rightarrow> real" where
  "quantum x = 2 powr real_of_int (float_exponent x - 52)"

definition fl :: "real \<Rightarrow> real" where
  "fl x = real_of_int (round_half_even (x / quantum x)) * quantum x"

text \<open>The numbers a double can hold: 53 bits of mantissa, exponent from -1074.\<close>

definition is_float :: "real \<Rightarrow> bool" where
  "is_float x =
     (\<exists>m e :: int. x = real_of_int m * 2 powr real_of_int e \<and> \<bar>m\<bar> \<le> 2 ^ 53 \<and> - 1074 \<le> e)"

text \<open>
  The float operators \<^verbatim>\<open>+\<close>, \<^verbatim>\<open>-\<close>, \<^verbatim>\<open>*\<close>, \<^verbatim>\<open>/\<close> (the last where the divisor is a non-zero
  literal), the conversion of an integer operand to float, and true division with its
  check of the divisor.
\<close>

definition float_add :: "real \<Rightarrow> real \<Rightarrow> real" where
  "float_add x y = fl (x + y)"

definition float_sub :: "real \<Rightarrow> real \<Rightarrow> real" where
  "float_sub x y = fl (x - y)"

definition float_mul :: "real \<Rightarrow> real \<Rightarrow> real" where
  "float_mul x y = fl (x * y)"

definition float_div :: "real \<Rightarrow> real \<Rightarrow> real" where
  "float_div x y = fl (x / y)"

definition float_of_int :: "int \<Rightarrow> real" where
  "float_of_int z = fl (real_of_int z)"

definition float_truediv :: "real \<Rightarrow> real \<Rightarrow> py_error + real" where
  "float_truediv a b = (if b = 0 then Inl ZeroDivisionError else Inr (fl (a / b)))"

text \<open>
  \<^verbatim>\<open>sum(...)\<close> over floats (CPython 3.11): the running sum starts at the integer 0 and
  each item is added in turn, every addition rounded.
\<close>

definition float_sum :: "real list \<Rightarrow> real" where
  "float_sum xs = fold (\<lambda>x acc. float_add acc x) xs 0"

text \<open>
  \<^verbatim>\<open>round(x, ndigits)\<close> on a float: the decimal with \<open>ndigits\<close> places nearest to the value
  of \<open>x\<close>, a tie going to the even last digit, and then the double nearest to that
  decimal.
\<close>

definition py_round :: "real \<Rightarrow> nat \<Rightarrow> real" where
  "py_round x ndigits = fl (real_of_int (round_half_even (x * 10 ^ ndigits)) / 10 ^ ndigits)"

subsection \<open>Input records\<close>

text \<open>
  A metric record is the dictionary \<^verbatim>\<open>{'timestamp', 'metricType', 'value', 'userId'}\<close>
  built in \<^verbatim>\<open>_handle_predict\<close>. Its timestamp is either an object with a \<^verbatim>\<open>date()\<close> method
  (a datetime: the proleptic Gregorian ordinal of its day, and the microsecond within
  the day) or a string, the two cases \<^verbatim>\<open>compute_features\<close> tells apart with \<^verbatim>\<open>hasattr\<close>.
  \<^verbatim>\<open>metricType\<close> is a string compared with four literals.
\<close>

record datetime =
  ordinal :: int
  microsecond_of_day :: nat

datatype timestamp = Instant datetime | Text string

record metric =
  timestamp :: timestamp
  metricType :: string
  metric_value :: real
  userId :: string

text \<open>
  The user profile is a dictionary read with \<^verbatim>\<open>.get(key, default)\<close>: either key may be
  absent. A present gender is a string.
\<close>

record user_profile =
  profile_age :: "int option"
  profile_gender :: "string option"

text \<open>
  The element of the set of days: \<^verbatim>\<open>m['timestamp'].date()\<close> for a datetime,
  \<^verbatim>\<open>m['timestamp'][:10]\<close> for a string. A date object never equals a string.
\<close>

datatype day_key = Date int | Prefix string

definition day_of :: "timestamp \<Rightarrow> day_key" where
  "day_of ts = (case ts of Instant d \<Rightarrow> Date (ordinal d) | Text s \<Rightarrow> Prefix (take 10 s))"

text \<open>\<^verbatim>\<open>str.lower()\<close> on the ASCII letters; every other character is left as it is.\<close>

definition lower_char :: "char \<Rightarrow> char" where
  "lower_char c =
     (if (65::nat) \<le> of_char c \<and> of_char c \<le> (90::nat) then char_of (of_char c + (32::nat)) else c)"

definition lower :: "string \<Rightarrow> string" where
  "lower s = map lower_char s"

subsection \<open>Feature extraction (\<^verbatim>\<open>compute_features\<close>)\<close>

definition mean :: "real list \<Rightarrow> py_error + real" where
  "mean arr = (if arr \<noteq> [] then py_truediv (sum_list arr) (real (length arr)) else Inr 0)"

text \<open>
  The generator \<^verbatim>\<open>sum((x - avg) ** 2 for x in arr)\<close>: the running sum starts at 0 and
  the first power that raises ends the loop.
\<close>

fun sum_sq_dev :: "real \<Rightarrow> real list \<Rightarrow> real \<Rightarrow> py_error + real" where
  "sum_sq_dev avg [] acc = Inr acc"
| "sum_sq_dev avg (x # xs) acc = bind_err (py_pow2 (x - avg)) (\<lambda>q. sum_sq_dev avg xs (acc + q))"

text \<open>
  \<^verbatim>\<open>variance ** 0.5\<close> is the square root; the variance is a mean of squares, never
  negative.
\<close>

definition std :: "real list \<Rightarrow> py_error + real" where
  "std arr =
     (if arr = [] then Inr 0
      else bind_err (mean arr) (\<lambda>avg.
           bind_err (sum_sq_dev avg arr 0) (\<lambda>total.
           bind_err (py_truediv total (real (length arr))) (\<lambda>variance.
           Inr (sqrt variance)))))"

text \<open>
  The sums over the indices are integer sums; \<^verbatim>\<open>sum(values)\<close> and \<^verbatim>\<open>sum(xi * yi ...)\<close> are
  float sums, every product \<^verbatim>\<open>xi * yi\<close>, \<^verbatim>\<open>n * sum_xy\<close> and \<^verbatim>\<open>sum_x * sum_y\<close> converts its
  integer operand to float and rounds, and so do the difference and the division by the
  integer denominator.
\<close>

definition compute_trend :: "real list \<Rightarrow> py_error + real" where
  "compute_trend values =
     (if length values < 2 then Inr 0
      else
        let n = int (length values);
            x = map int [0..<length values];
            sum_x = sum_list x;
            sum_y = float_sum values;
            sum_xy = float_sum (map (\<lambda>(xi, yi). float_mul (float_of_int xi) yi) (zip x values));
            sum_x2 = sum_list (map (\<lambda>xi. xi * xi) x);
            denominator = n * sum_x2 - sum_x * sum_x
        in if denominator = 0 then Inr 0
           else float_truediv
                  (float_sub (float_mul (float_of_int n) sum_xy)
                     (float_mul (float_of_int sum_x) sum_y))
                  (float_of_int denominator))"

definition series :: "string \<Rightarrow> metric list \<Rightarrow> real list" where
  "series ty metrics = map metric_value (filter (\<lambda>m. metricType m = ty) metrics)"

definition unique_days :: "metric list \<Rightarrow> nat" where
  "unique_days metrics = card (set (map (\<lambda>m. day_of (timestamp m)) metrics))"

definition gender_code :: "user_profile \<Rightarrow> int" where
  "gender_code user_profile' =
     (if lower (case profile_gender user_profile' of None \<Rightarrow> ''male'' | Some g \<Rightarrow> g) = ''male''
      then 1 else 0)"

definition compute_features :: "metric list \<Rightarrow> user_profile \<Rightarrow> py_error + features" where
  "compute_features metrics user_profile' =
     (let heart_rate_data = series ''heart_rate'' metrics;
          steps_data = series ''steps'' metrics;
          sleep_data = series ''sleep'' metrics;
          calories_data = series ''calories'' metrics
      in
      bind_err (mean heart_rate_data) (\<lambda>hr_mean.
      bind_err (std heart_rate_data) (\<lambda>hr_std.
      bind_err (if heart_rate_data \<noteq> [] then py_max heart_rate_data else Inr 0) (\<lambda>hr_max.
      bind_err (if heart_rate_data \<noteq> [] then py_min heart_rate_data else Inr 0) (\<lambda>hr_min.
      bind_err (mean steps_data) (\<lambda>st_mean.
      bind_err (std steps_data) (\<lambda>st_std.
      bind_err (mean sleep_data) (\<lambda>sl_mean.
      bind_err (std sleep_data) (\<lambda>sl_std.
      bind_err (mean calories_data) (\<lambda>cal_mean.
      bind_err (std calories_data) (\<lambda>cal_std.
      bind_err (compute_trend heart_rate_data) (\<lambda>tr_hr.
      bind_err (compute_trend steps_data) (\<lambda>tr_steps.
      bind_err (compute_trend sleep_data) (\<lambda>tr_sleep.
      Inr \<lparr> heart_rate_mean = hr_mean,
            heart_rate_std = hr_std,
            heart_rate_max = hr_max,
            heart_rate_min = hr_min,
            steps_mean = st_mean,
            steps_std = st_std,
            steps_total = sum_list steps_data,
            sleep_hours_mean = sl_mean,
            sleep_hours_std = sl_std,
            calories_mean = cal_mean,
            calories_std = cal_std,
            age = (case profile_age user_profile' of None \<Rightarrow> 35 | Some a \<Rightarrow> a),
            gender_encoded = gender_code user_profile',
            days_with_data = unique_days metrics,
            trend_heart_rate = tr_hr,
            trend_steps = tr_steps,
            trend_sleep = tr_sleep \<rparr>))))))))))))))"

subsection \<open>Days with data in \<^verbatim>\<open>local_server_realdata.py\<close>\<close>

text \<open>
  \<^verbatim>\<open>compute_features\<close> of \<^verbatim>\<open>local_server_realdata.py\<close> differs from the one above in one
  line, \<^verbatim>\<open>unique_days = len(set(str(m.get('timestamp', ''))[:10] for m in metrics))\<close>.
  \<^verbatim>\<open>str\<close> of a string is the string; \<^verbatim>\<open>str\<close> of a datetime starts with the ISO text of its
  date, \<^verbatim>\<open>YYYY-MM-DD\<close>, which is its first 10 characters for every year from 1 to 9999.
  A record has a timestamp, so the default of \<^verbatim>\<open>get\<close> is not used.

  The date of a proleptic Gregorian ordinal, as CPython's \<^verbatim>\<open>datetime._ord2ymd\<close> computes
  it, with its tables \<^verbatim>\<open>_DAYS_IN_MONTH\<close> and \<^verbatim>\<open>_DAYS_BEFORE_MONTH\<close> (\<^verbatim>\<open>>> 5\<close> is the
  integer division by 32):
\<close>

definition days_in_month :: "int \<Rightarrow> int" where
  "days_in_month month = [- 1, 31, 28, 31, 30, 31, 30, 31, 31, 30, 31, 30, 31] ! nat month"

definition days_before_month :: "int \<Rightarrow> int" where
  "days_before_month month = [- 1, 0, 31, 59, 90, 120, 151, 181, 212, 243, 273, 304, 334] ! nat month"

definition ord2ymd :: "int \<Rightarrow> int \<times> int \<times> int" where
  "ord2ymd ordinal' =
     (let n = ordinal' - 1;
          n400 = n div 146097;
          n = n mod 146097;
          year = n400 * 400 + 1;
          n100 = n div 36524;
          n = n mod 36524;
          n4 = n div 1461;
          n = n mod 1461;
          n1 = n div 365;
          n = n mod 365;
          year = year + n100 * 100 + n4 * 4 + n1
      in if n1 = 4 \<or> n100 = 4 then (year - 1, 12, 31)
         else
           let leapyear = (n1 = 3 \<and> (n4 \<noteq> 24 \<or> n100 = 3));
               month = (n + 50) div 32;
               preceding = days_before_month month + (if month > 2 \<and> leapyear then 1 else 0)
           in if preceding > n
              then
                let month = month - 1;
                    preceding = preceding - (days_in_month month + (if month = 2 \<and> leapyear then 1 else 0))
                in (year, month, n - preceding + 1)
              else (year, month, n - preceding + 1))"

text \<open>
  \<^verbatim>\<open>date.isoformat()\<close>, that is \<^verbatim>\<open>"%04d-%02d-%02d" % (year, month, day)\<close>, for the years
  from 1 to 9999 a date can have.
\<close>

definition digit :: "int \<Rightarrow> char" where
  "digit k = ''0123456789'' ! nat (k mod 10)"

definition iso_date :: "int \<Rightarrow> string" where
  "iso_date ordinal' =
     (case ord2ymd ordinal' of (year, month, day) \<Rightarrow>
        [digit (year div 1000), digit (year div 100), digit (year div 10), digit year] @ ''-'' @
        [digit (month div 10), digit month] @ ''-'' @ [digit (day div 10), digit day])"

text \<open>The first 10 characters of \<^verbatim>\<open>str(timestamp)\<close>, and the count of the distinct ones.\<close>

definition day_text :: "timestamp \<Rightarrow> string" where
  "day_text ts = (case ts of Instant d \<Rightarrow> iso_date (ordinal d) | Text s \<Rightarrow> take 10 s)"

definition unique_days_realdata :: "metric list \<Rightarrow> nat" where
  "unique_days_realdata metrics = card (set (map (\<lambda>m. day_text (timestamp m)) metrics))"

subsection \<open>Prediction response (\<^verbatim>\<open>_generate_prediction_response\<close>)\<close>

record contributing_factor =
  feature :: string
  impact :: real
  status :: string

text \<open>
  A forecast entry. The source renders the date with \<^verbatim>\<open>strftime('%Y-%m-%d')\<close>; the model
  keeps the ordinal of that calendar day, of which the text is an order-preserving
  rendering.
\<close>

record trend_point =
  date :: int
  predicted_risk :: real
  confidence_lower :: real
  confidence_upper :: real

record prediction =
  risk_score :: real
  risk_level :: string
  confidence :: real
  contributing_factors :: "contributing_factor list"
  recommendations :: "string list"
  predicted_trend :: "trend_point list"

record response =
  success :: bool
  prediction :: prediction

text \<open>
  \<^verbatim>\<open>list.sort(key=..., reverse=True)\<close>: a stable sort into descending key order; elements
  with equal keys keep their original order. On numeric keys that is the stable
  ascending sort by the negated key.
\<close>

definition sort_reverse :: "('a \<Rightarrow> real) \<Rightarrow> 'a list \<Rightarrow> 'a list" where
  "sort_reverse key xs = sort_key (\<lambda>x. - key x) xs"

text \<open>
  The four factors. The baselines 70, 8000, 7.5 and 2200 are doubles as they stand; the
  difference and the quotient are rounded, \<^verbatim>\<open>abs\<close> is exact.
\<close>

definition heart_rate_factor :: "features \<Rightarrow> contributing_factor" where
  "heart_rate_factor f =
     (let hr_mean = heart_rate_mean f;
          hr_impact = float_div \<bar>float_sub hr_mean 70\<bar> 70;
          hr_status = (if hr_mean > 80 \<or> hr_mean < 60 then ''warning'' else ''good'')
      in \<lparr> feature = ''heart_rate'', impact = py_round hr_impact 2, status = hr_status \<rparr>)"

definition steps_factor :: "features \<Rightarrow> contributing_factor" where
  "steps_factor f =
     (let steps_mean' = steps_mean f;
          steps_impact = float_div \<bar>float_sub steps_mean' 8000\<bar> 8000;
          steps_status = (if steps_mean' < 5000 then ''critical''
                          else if steps_mean' < 7000 then ''warning'' else ''good'')
      in \<lparr> feature = ''steps'', impact = py_round steps_impact 2, status = steps_status \<rparr>)"

definition sleep_factor :: "features \<Rightarrow> contributing_factor" where
  "sleep_factor f =
     (let sleep_mean = sleep_hours_mean f;
          sleep_impact = float_div \<bar>float_sub sleep_mean 7.5\<bar> 7.5;
          sleep_status = (if sleep_mean < 6 then ''critical''
                          else if sleep_mean < 7 then ''warning'' else ''good'')
      in \<lparr> feature = ''sleep'', impact = py_round sleep_impact 2, status = sleep_status \<rparr>)"

definition calories_factor :: "features \<Rightarrow> contributing_factor" where
  "calories_factor f =
     (let cal_mean = calories_mean f;
          cal_impact = float_div \<bar>float_sub cal_mean 2200\<bar> 2200;
          cal_status = (if cal_mean > 2800 then ''warning'' else ''good'')
      in \<lparr> feature = ''calories'', impact = py_round cal_impact 2, status = cal_status \<rparr>)"

definition build_contributing_factors :: "features \<Rightarrow> contributing_factor list" where
  "build_contributing_factors f =
     (let contributing_factors = [];
          contributing_factors = contributing_factors @ [heart_rate_factor f];
          contributing_factors = contributing_factors @ [steps_factor f];
          contributing_factors = contributing_factors @ [sleep_factor f];
          contributing_factors = contributing_factors @ [calories_factor f]
      in sort_reverse impact contributing_factors)"

definition build_recommendations :: "features \<Rightarrow> string list" where
  "build_recommendations f =
     (let recommendations = [];
          recommendations =
            (if heart_rate_mean f > 80
             then recommendations @
               [''Consider stress management techniques to lower resting heart rate'']
             else recommendations);
          recommendations =
            (if steps_mean f < 7000
             then recommendations @
               [''Increase daily physical activity - aim for at least 8000 steps per day'']
             else recommendations);
          recommendations =
            (if sleep_hours_mean f < 7
             then recommendations @ [''Improve sleep quality - aim for 7-8 hours per night'']
             else recommendations);
          recommendations =
            (if calories_mean f > 2500
             then recommendations @
               [''Monitor calorie intake and consider dietary adjustments'']
             else recommendations);
          recommendations =
            (if recommendations = []
             then recommendations @ [''Keep up the great work! Maintain your healthy lifestyle'']
             else recommendations)
      in recommendations)"

text \<open>
  One pass of the loop \<^verbatim>\<open>for i in range(1, 8)\<close>. The source reads the clock with
  \<^verbatim>\<open>datetime.now()\<close> in every pass; the model takes the instant as the parameter \<open>now\<close>.
  The literals \<^verbatim>\<open>0.3\<close>, \<^verbatim>\<open>-0.0001\<close>, \<^verbatim>\<open>-0.05\<close>, \<^verbatim>\<open>0.01\<close> and \<^verbatim>\<open>0.1\<close> are the nearest doubles.
\<close>

definition trend_entry :: "datetime \<Rightarrow> real \<Rightarrow> features \<Rightarrow> nat \<Rightarrow> trend_point" where
  "trend_entry now risk_score' f i =
     (let trend_adjustment =
            float_mul
              (float_add
                 (float_add (float_mul (trend_heart_rate f) (fl 0.3))
                    (float_mul (trend_steps f) (fl (- 0.0001))))
                 (float_mul (trend_sleep f) (fl (- 0.05))))
              (float_of_int (int i));
          predicted_risk' =
            max 0 (min 1 (float_add risk_score' (float_mul trend_adjustment (fl 0.01))))
      in \<lparr> date = ordinal now + int i,
            predicted_risk = py_round predicted_risk' 3,
            confidence_lower = py_round (max 0 (float_sub predicted_risk' (fl 0.1))) 3,
            confidence_upper = py_round (min 1 (float_add predicted_risk' (fl 0.1))) 3 \<rparr>)"

definition generate_prediction_response ::
    "datetime \<Rightarrow> real \<Rightarrow> features \<Rightarrow> string \<Rightarrow> response" where
  "generate_prediction_response now risk_score' f user_id =
     \<lparr> success = True,
       prediction =
         \<lparr> risk_score = py_round risk_score' 3,
           risk_level = risk_level_of risk_score',
           confidence = 0.85,
           contributing_factors = build_contributing_factors f,
           recommendations = build_recommendations f,
           predicted_trend = map (trend_entry now risk_score' f) [1..<8] \<rparr> \<rparr>"

text \<open>
  The two calls of \<^verbatim>\<open>_handle_predict\<close> that turn a feature vector into the response:
  \<^verbatim>\<open>risk_score = calculate_risk_score(features)\<close>, then
  \<^verbatim>\<open>_generate_prediction_response(risk_score, features, user_id)\<close>.
\<close>

definition predict :: "datetime \<Rightarrow> features \<Rightarrow> string \<Rightarrow> response" where
  "predict now f user_id = generate_prediction_response now (calculate_risk_score f) f user_id"

subsection \<open>Least squares as the specification words it\<close>





subsection \<open>The forecast as the specification words it\<close>


subsection \<open>Closed forms of the extracted features\<close>

text \<open>
  What each helper of \<^verbatim>\<open>compute_features\<close> returns when it returns, and when it raises:
  \<open>overflows\<close> holds of a series in which the square of some deviation from the mean is
  out of the float range. The theorems below prove that the code computes these.
\<close>

definition mean_value :: "real list \<Rightarrow> real" where
  "mean_value xs = (if xs = [] then 0 else sum_list xs / real (length xs))"

definition overflows :: "real list \<Rightarrow> bool" where
  "overflows xs = (\<exists>x\<in>set xs. float_overflow \<le> (x - mean_value xs) * (x - mean_value xs))"

definition std_value :: "real list \<Rightarrow> real" where
  "std_value xs =
     (if xs = [] then 0
      else sqrt ((\<Sum>x\<leftarrow>xs. (x - mean_value xs) * (x - mean_value xs)) / real (length xs)))"

definition trend_value :: "real list \<Rightarrow> real" where
  "trend_value ys = (case compute_trend ys of Inl e \<Rightarrow> 0 | Inr t \<Rightarrow> t)"

definition max_value :: "real list \<Rightarrow> real" where
  "max_value xs = (if xs = [] then 0 else Max (set xs))"

definition min_value :: "real list \<Rightarrow> real" where
  "min_value xs = (if xs = [] then 0 else Min (set xs))"

definition features_of :: "metric list \<Rightarrow> user_profile \<Rightarrow> features" where
  "features_of metrics p =
     \<lparr> heart_rate_mean = mean_value (series ''heart_rate'' metrics),
       heart_rate_std = std_value (series ''heart_rate'' metrics),
       heart_rate_max = max_value (series ''heart_rate'' metrics),
       heart_rate_min = min_value (series ''heart_rate'' metrics),
       steps_mean = mean_value (series ''steps'' metrics),
       steps_std = std_value (series ''steps'' metrics),
       steps_total = sum_list (series ''steps'' metrics),
       sleep_hours_mean = mean_value (series ''sleep'' metrics),
       sleep_hours_std = std_value (series ''sleep'' metrics),
       calories_mean = mean_value (series ''calories'' metrics),
       calories_std = std_value (series ''calories'' metrics),
       age = (case profile_age p of None \<Rightarrow> 35 | Some a \<Rightarrow> a),
       gender_encoded = gender_code p,
       days_with_data = unique_days metrics,
       trend_heart_rate = trend_value (series ''heart_rate'' metrics),
       trend_steps = trend_value (series ''steps'' metrics),
       trend_sleep = trend_value (series ''sleep'' metrics) \<rparr>"

definition raises :: "metric list \<Rightarrow> bool" where
  "raises metrics =
     (overflows (series ''heart_rate'' metrics) \<or> overflows (series ''steps'' metrics) \<or>
      overflows (series ''sleep'' metrics) \<or> overflows (series ''calories'' metrics))"

text \<open>The spellings of \<^verbatim>\<open>male\<close> in any mix of upper and lower case.\<close>

definition male_spelling :: "string \<Rightarrow> bool" where
  "male_spelling g =
     list_all2 (\<lambda>c (lo, up). c = lo \<or> c = up) g
       [(CHR ''m'', CHR ''M''), (CHR ''a'', CHR ''A''), (CHR ''l'', CHR ''L''),
        (CHR ''e'', CHR ''E'')]"

text \<open>
  The dates of the datetime timestamps of a record list, and the 10-character prefixes of
  its string timestamps.
\<close>

definition datetime_days :: "metric list \<Rightarrow> int set" where
  "datetime_days ms =
     set (concat (map (\<lambda>m. case timestamp m of Instant d \<Rightarrow> [ordinal d] | Text s \<Rightarrow> []) ms))"

definition text_days :: "metric list \<Rightarrow> string set" where
  "text_days ms =
     set (concat (map (\<lambda>m. case timestamp m of Instant d \<Rightarrow> [] | Text s \<Rightarrow> [take 10 s]) ms))"

subsection \<open>Recommendations as the specification words them\<close>

text \<open>
  The five messages, and the list of the messages whose trigger holds, in the fixed order
  heart rate, steps, sleep, calories.
\<close>

definition stress_message :: string where
  "stress_message = ''Consider stress management techniques to lower resting heart rate''"

definition activity_message :: string where
  "activity_message = ''Increase daily physical activity - aim for at least 8000 steps per day''"

definition sleep_message :: string where
  "sleep_message = ''Improve sleep quality - aim for 7-8 hours per night''"

definition diet_message :: string where
  "diet_message = ''Monitor calorie intake and consider dietary adjustments''"

definition fallback_message :: string where
  "fallback_message = ''Keep up the great work! Maintain your healthy lifestyle''"

definition triggered :: "features \<Rightarrow> string list" where
  "triggered f =
     (if heart_rate_mean f > 80 then [stress_message] else []) @
     (if steps_mean f < 7000 then [activity_message] else []) @
     (if sleep_hours_mean f < 7 then [sleep_message] else []) @
     (if calories_mean f > 2500 then [diet_message] else [])"

subsection \<open>Concrete inputs\<close>

text \<open>The second end-to-end example of the specification, the unlisted fields set to 0.\<close>

definition example_features :: features where
  "example_features =
     \<lparr> heart_rate_mean = 105, heart_rate_std = 0, heart_rate_max = 0, heart_rate_min = 0,
       steps_mean = 2000, steps_std = 0, steps_total = 0,
       sleep_hours_mean = 4, sleep_hours_std = 0,
       calories_mean = 3200, calories_std = 0,
       age = 65, gender_encoded = 1, days_with_data = 0,
       trend_heart_rate = 0.6, trend_steps = 0, trend_sleep = 0 \<rparr>"

text \<open>A vector that differs from it in the nine fields the prediction never reads.\<close>

definition example_features_other :: features where
  "example_features_other =
     example_features \<lparr> heart_rate_std := 12, heart_rate_max := 140, heart_rate_min := 71,
       steps_std := 900, steps_total := 60000, sleep_hours_std := 1.5, calories_std := 250,
       gender_encoded := 0, days_with_data := 30 \<rparr>"

definition example_now :: datetime where
  "example_now = \<lparr> ordinal = 739923, microsecond_of_day = 0 \<rparr>"

text \<open>
  Records and a profile for the examples: a profile with neither key, a heart-rate
  record of a given value, a steps record, a record of a type the extractor does not
  know, and ten records of which one heart rate is \<open>2^600\<close>.
\<close>

definition absent_profile :: user_profile where
  "absent_profile = \<lparr> profile_age = None, profile_gender = None \<rparr>"

definition heart_record :: "real \<Rightarrow> metric" where
  "heart_record v =
     \<lparr> timestamp = Instant \<lparr> ordinal = 739000, microsecond_of_day = 0 \<rparr>,
       metricType = ''heart_rate'', metric_value = v, userId = ''u1'' \<rparr>"

definition steps_record :: metric where
  "steps_record =
     \<lparr> timestamp = Instant \<lparr> ordinal = 739000, microsecond_of_day = 0 \<rparr>,
       metricType = ''steps'', metric_value = 8000, userId = ''u1'' \<rparr>"

definition weight_record :: metric where
  "weight_record =
     \<lparr> timestamp = Instant \<lparr> ordinal = 739001, microsecond_of_day = 0 \<rparr>,
       metricType = ''weight'', metric_value = 80, userId = ''u1'' \<rparr>"

definition overflow_metrics :: "metric list" where
  "overflow_metrics = [heart_record (2 ^ 600), heart_record 0] @ replicate 8 steps_record"



text \<open>
  Three records of 9 March 2024, the day of ordinal 738954: one with a datetime
  timestamp, two with string timestamps.
\<close>

definition morning_record :: metric where
  "morning_record =
     \<lparr> timestamp = Instant \<lparr> ordinal = 738954, microsecond_of_day = 28800000000 \<rparr>,
       metricType = ''heart_rate'', metric_value = 72, userId = ''u1'' \<rparr>"

definition evening_record :: metric where
  "evening_record =
     \<lparr> timestamp = Text ''2024-03-09T20:00:00'',
       metricType = ''steps'', metric_value = 8000, userId = ''u1'' \<rparr>"

definition night_record :: metric where
  "night_record =
     \<lparr> timestamp = Text ''2024-03-09T23:30:00'',
       metricType = ''sleep'', metric_value = 7, userId = ''u1'' \<rparr>"

section \<open>Theorems\<close>

subsection \<open>The scorer is the rule table\<close>










subsection \<open>Risk level bands\<close>



subsection \<open>Binary64 rounding\<close>

lemma rhe_bounds: "\<lfloor>y\<rfloor> \<le> round_half_even y \<and> round_half_even y \<le> \<lfloor>y\<rfloor> + 1"
  by (simp add: round_half_even_def Let_def)

lemma rhe_mono: "x \<le> y \<Longrightarrow> round_half_even x \<le> round_half_even y"
proof -
  assume xy: "x \<le> y"
  have fl: "\<lfloor>x\<rfloor> \<le> \<lfloor>y\<rfloor>" using xy by (rule floor_mono)
  show ?thesis
  proof (cases "\<lfloor>x\<rfloor> = \<lfloor>y\<rfloor>")
    case True
    then show ?thesis using xy
      by (auto simp: round_half_even_def Let_def)
  next
    case False
    with fl have "\<lfloor>x\<rfloor> + 1 \<le> \<lfloor>y\<rfloor>" by simp
    then show ?thesis using rhe_bounds [of x] rhe_bounds [of y] by linarith
  qed
qed

lemma rhe_of_int: "round_half_even (of_int k) = k"
  by (simp add: round_half_even_def Let_def)

lemma rhe_neg: "round_half_even (- y) = - round_half_even y"
proof (cases "y = real_of_int \<lfloor>y\<rfloor>")
  case True
  then obtain k :: int where "y = of_int k" by metis
  then show ?thesis using rhe_of_int [of k] rhe_of_int [of "- k"] by simp
next
  case False
  then have fl: "\<lfloor>- y\<rfloor> = - \<lfloor>y\<rfloor> - 1"
    by (simp add: floor_minus ceiling_altdef Ints_def)
  show ?thesis
    unfolding round_half_even_def Let_def fl
    by (auto simp: algebra_simps)
qed

lemma quantum_pos: "0 < quantum x"
  by (simp add: quantum_def)

lemma quantum_neg: "quantum (- x) = quantum x"
  by (simp add: quantum_def float_exponent_def)

lemma fl_neg: "fl (- x) = - fl x"
  by (simp add: fl_def quantum_neg rhe_neg)

lemma fl_0: "fl 0 = 0"
  using rhe_of_int [of 0] by (simp add: fl_def)

text \<open>The exponent brackets the magnitude.\<close>

lemma float_exponent_upper:
  assumes "x \<noteq> 0"
  shows "\<bar>x\<bar> < 2 powr real_of_int (float_exponent x + 1)"
proof -
  have pos: "0 < \<bar>x\<bar>" using assms by simp
  have "\<bar>x\<bar> < 2 powr real_of_int (\<lfloor>log 2 \<bar>x\<bar>\<rfloor> + 1)"
    using floor_log_eq_powr_iff [OF pos, of 2 "\<lfloor>log 2 \<bar>x\<bar>\<rfloor>"] by simp
  also have "\<dots> \<le> 2 powr real_of_int (float_exponent x + 1)"
    by (simp add: float_exponent_def)
  finally show ?thesis .
qed

lemma float_exponent_lower:
  assumes "x \<noteq> 0" and "- 1022 < float_exponent x"
  shows "2 powr real_of_int (float_exponent x) \<le> \<bar>x\<bar>"
proof -
  have pos: "0 < \<bar>x\<bar>" using assms by simp
  have e: "float_exponent x = \<lfloor>log 2 \<bar>x\<bar>\<rfloor>"
    using assms(2) by (simp add: float_exponent_def max_def split: if_splits)
  show ?thesis
    unfolding e using floor_log_eq_powr_iff [OF pos, of 2 "\<lfloor>log 2 \<bar>x\<bar>\<rfloor>"] by simp
qed

lemma float_exponent_mono:
  assumes "0 < \<bar>x\<bar>" "\<bar>x\<bar> \<le> \<bar>y\<bar>"
  shows "float_exponent x \<le> float_exponent y"
proof -
  have "log 2 \<bar>x\<bar> \<le> log 2 \<bar>y\<bar>" using assms by simp
  then have "\<lfloor>log 2 \<bar>x\<bar>\<rfloor> \<le> \<lfloor>log 2 \<bar>y\<bar>\<rfloor>" by (rule floor_mono)
  then show ?thesis by (simp add: float_exponent_def)
qed

lemma quantum_scale: "2 ^ 53 * quantum x = 2 powr real_of_int (float_exponent x + 1)"
proof -
  have "real_of_int (float_exponent x + 1) = 53 + real_of_int (float_exponent x - 52)"
    by simp
  then have "2 powr real_of_int (float_exponent x + 1) = 2 powr (53 + real_of_int (float_exponent x - 52))"
    by (rule arg_cong)
  also have "\<dots> = 2 powr 53 * quantum x"
    unfolding quantum_def by (rule powr_add)
  finally show ?thesis by simp
qed

lemma quantum_scale52: "2 ^ 52 * quantum x = 2 powr real_of_int (float_exponent x)"
proof -
  have "real_of_int (float_exponent x) = 52 + real_of_int (float_exponent x - 52)"
    by simp
  then have "2 powr real_of_int (float_exponent x) = 2 powr (52 + real_of_int (float_exponent x - 52))"
    by (rule arg_cong)
  also have "\<dots> = 2 powr 52 * quantum x"
    unfolding quantum_def by (rule powr_add)
  finally show ?thesis by simp
qed

lemma scaled_less:
  assumes "x \<noteq> 0"
  shows "\<bar>x / quantum x\<bar> < 2 ^ 53"
proof -
  have "\<bar>x\<bar> < 2 ^ 53 * quantum x"
    unfolding quantum_scale using assms by (rule float_exponent_upper)
  then have "\<bar>x\<bar> / quantum x < 2 ^ 53"
    using quantum_pos [of x] by (simp add: field_simps)
  then show ?thesis using quantum_pos [of x] by (simp add: abs_divide)
qed

lemma rhe_abs_le:
  assumes "\<bar>v\<bar> \<le> real_of_int k"
  shows "\<bar>round_half_even v\<bar> \<le> k"
proof -
  have "round_half_even v \<le> round_half_even (of_int k)"
    using assms by (intro rhe_mono) (simp add: abs_le_iff)
  moreover have "round_half_even (of_int (- k)) \<le> round_half_even v"
    using assms by (intro rhe_mono) (simp add: abs_le_iff)
  ultimately show ?thesis by (simp add: rhe_of_int rhe_neg)
qed

lemma fl_is_float: "is_float (fl x)"
proof (cases "x = 0")
  case True
  have "(0::real) = real_of_int 0 * 2 powr real_of_int 0" by simp
  then show ?thesis unfolding True fl_0 is_float_def
    by (intro exI [of _ 0]) simp
next
  case False
  have "\<bar>x / quantum x\<bar> \<le> real_of_int (2 ^ 53)"
    using scaled_less [OF False] by simp
  then have m: "\<bar>round_half_even (x / quantum x)\<bar> \<le> 2 ^ 53"
    by (rule rhe_abs_le)
  have e: "- 1074 \<le> float_exponent x - 52"
    by (simp add: float_exponent_def)
  show ?thesis
    unfolding is_float_def fl_def quantum_def
    using m e
    by (intro exI [of _ "round_half_even (x / 2 powr real_of_int (float_exponent x - 52))"]
        exI [of _ "float_exponent x - 52"]) (simp add: quantum_def)
qed

lemma fl_nonneg: "0 \<le> x \<Longrightarrow> 0 \<le> fl x"
proof -
  assume "0 \<le> x"
  then have "0 \<le> x / quantum x" using quantum_pos [of x] by simp
  then have "round_half_even 0 \<le> round_half_even (x / quantum x)" by (rule rhe_mono)
  then have "0 \<le> round_half_even (x / quantum x)" using rhe_of_int [of 0] by simp
  then show ?thesis using quantum_pos [of x] by (simp add: fl_def)
qed

lemma fl_upper:
  assumes "0 < x"
  shows "fl x \<le> 2 powr real_of_int (float_exponent x + 1)"
proof -
  have "\<bar>x / quantum x\<bar> < 2 ^ 53"
    using assms by (intro scaled_less) simp
  moreover have "x / quantum x \<le> \<bar>x / quantum x\<bar>"
    by (rule abs_ge_self)
  ultimately have "x / quantum x \<le> real_of_int (2 ^ 53)"
    by simp
  then have "round_half_even (x / quantum x) \<le> round_half_even (real_of_int (2 ^ 53))"
    by (rule rhe_mono)
  then have "real_of_int (round_half_even (x / quantum x)) \<le> 2 ^ 53"
    unfolding rhe_of_int by simp
  then have "fl x \<le> 2 ^ 53 * quantum x"
    unfolding fl_def using quantum_pos [of x] by (intro mult_right_mono) simp_all
  then show ?thesis unfolding quantum_scale .
qed

lemma fl_lower:
  assumes "0 < x" and "- 1022 < float_exponent x"
  shows "2 powr real_of_int (float_exponent x) \<le> fl x"
proof -
  have "2 ^ 52 * quantum x \<le> x"
    unfolding quantum_scale52 using float_exponent_lower [of x] assms by simp
  then have "real_of_int (2 ^ 52) \<le> x / quantum x"
    using quantum_pos [of x] by (simp add: field_simps)
  then have "round_half_even (real_of_int (2 ^ 52)) \<le> round_half_even (x / quantum x)"
    by (rule rhe_mono)
  then have "2 ^ 52 \<le> real_of_int (round_half_even (x / quantum x))"
    unfolding rhe_of_int by simp
  then have "2 ^ 52 * quantum x \<le> fl x"
    unfolding fl_def using quantum_pos [of x] by (intro mult_right_mono) simp_all
  then show ?thesis unfolding quantum_scale52 .
qed

lemma fl_mono_pos:
  assumes "0 < x" "x \<le> y"
  shows "fl x \<le> fl y"
proof -
  have ey: "float_exponent x \<le> float_exponent y"
    using assms by (intro float_exponent_mono) simp_all
  show ?thesis
  proof (cases "float_exponent x = float_exponent y")
    case True
    then have q: "quantum x = quantum y" by (simp add: quantum_def)
    have "x / quantum y \<le> y / quantum y"
      using assms quantum_pos [of y] by (simp add: divide_right_mono)
    then have "round_half_even (x / quantum y) \<le> round_half_even (y / quantum y)"
      by (rule rhe_mono)
    then show ?thesis
      unfolding fl_def q using quantum_pos [of y] by (intro mult_right_mono) simp_all
  next
    case False
    with ey have lt: "float_exponent x + 1 \<le> float_exponent y" by simp
    have "- 1022 \<le> float_exponent x" by (simp add: float_exponent_def)
    with lt have n: "- 1022 < float_exponent y" by simp
    have "fl x \<le> 2 powr real_of_int (float_exponent x + 1)"
      using assms(1) by (rule fl_upper)
    also have "\<dots> \<le> 2 powr real_of_int (float_exponent y)"
      using lt by simp
    also have "\<dots> \<le> fl y"
      using assms n by (intro fl_lower) simp_all
    finally show ?thesis .
  qed
qed

lemma fl_mono: "x \<le> y \<Longrightarrow> fl x \<le> fl y"
proof -
  assume xy: "x \<le> y"
  consider "0 < x" | "x \<le> 0" "0 \<le> y" | "y < 0" by linarith
  then show ?thesis
  proof cases
    case 1
    then show ?thesis using xy by (rule fl_mono_pos)
  next
    case 2
    have "fl x \<le> 0" using fl_nonneg [of "- x"] 2(1) by (simp add: fl_neg)
    also have "0 \<le> fl y" using 2(2) by (rule fl_nonneg)
    finally show ?thesis .
  next
    case 3
    have "fl (- y) \<le> fl (- x)" using 3 xy by (intro fl_mono_pos) simp_all
    then show ?thesis by (simp add: fl_neg)
  qed
qed

text \<open>Rounding leaves a representable number as it is.\<close>

lemma floor_log_less:
  assumes "0 < a" "a < 2 powr real_of_int k"
  shows "\<lfloor>log 2 a\<rfloor> < k"
proof -
  have "log 2 a < real_of_int k"
    using assms by (simp add: log_less_iff)
  then show ?thesis by (simp add: floor_less_iff)
qed

lemma fl_exact_core:
  assumes x: "x = real_of_int m * 2 powr real_of_int e"
    and m: "\<bar>m\<bar> < 2 ^ 53" and e: "- 1074 \<le> e"
  shows "fl x = x"
proof (cases "m = 0")
  case True
  then show ?thesis using x fl_0 by simp
next
  case False
  then have x0: "x \<noteq> 0" using x by simp
  have "\<bar>x\<bar> = \<bar>real_of_int m\<bar> * 2 powr real_of_int e"
    unfolding x by (simp add: abs_mult)
  also have "\<dots> < 2 ^ 53 * 2 powr real_of_int e"
  proof (intro mult_strict_right_mono)
    have "real_of_int \<bar>m\<bar> < real_of_int (2 ^ 53)" using m by (simp only: of_int_less_iff)
    then show "\<bar>real_of_int m\<bar> < 2 ^ 53" by simp
  qed simp
  also have "\<dots> = 2 powr real_of_int (e + 53)"
  proof -
    have "real_of_int (e + 53) = 53 + real_of_int e" by simp
    then have "2 powr real_of_int (e + 53) = 2 powr (53 + real_of_int e)" by (rule arg_cong)
    also have "\<dots> = 2 powr 53 * 2 powr real_of_int e" by (rule powr_add)
    finally show ?thesis by simp
  qed
  finally have "\<lfloor>log 2 \<bar>x\<bar>\<rfloor> < e + 53"
    using x0 by (intro floor_log_less) simp_all
  then have E: "float_exponent x \<le> e + 52"
    using e by (simp add: float_exponent_def)
  define d where "d = nat (e + 52 - float_exponent x)"
  have d: "real_of_int e = real d + real_of_int (float_exponent x - 52)"
    using E by (simp add: d_def)
  have "2 powr real_of_int e = 2 powr real d * quantum x"
    unfolding quantum_def d by (rule powr_add)
  then have pe: "2 powr real_of_int e = 2 ^ d * quantum x"
    by (simp add: powr_realpow)
  have xq: "x = real_of_int (m * 2 ^ d) * quantum x"
    using x pe by simp
  then have sc: "x / quantum x = real_of_int (m * 2 ^ d)"
    using quantum_pos [of x] by (simp add: field_simps)
  have "fl x = real_of_int (m * 2 ^ d) * quantum x"
    unfolding fl_def sc rhe_of_int ..
  then show ?thesis using xq by simp
qed

lemma fl_exact: "is_float x \<Longrightarrow> fl x = x"
proof -
  assume "is_float x"
  then obtain m e :: int where x: "x = real_of_int m * 2 powr real_of_int e"
    and m: "\<bar>m\<bar> \<le> 2 ^ 53" and e: "- 1074 \<le> e"
    unfolding is_float_def by blast
  show ?thesis
  proof (cases "\<bar>m\<bar> = 2 ^ 53")
    case False
    with m have "\<bar>m\<bar> < 2 ^ 53" by simp
    with x e show ?thesis by (intro fl_exact_core [of x m e])
  next
    case True
    then have "m = 9007199254740992 \<or> m = - 9007199254740992"
      by (simp add: abs_if split: if_splits)
    then have mm: "m = (m div 2) * 2" and lt: "\<bar>m div 2\<bar> < 2 ^ 53"
      by auto
    have "real_of_int m = real_of_int ((m div 2) * 2)"
      using mm by simp
    then have m2: "real_of_int m = real_of_int (m div 2) * 2"
      by simp
    have "real_of_int (e + 1) = 1 + real_of_int e" by simp
    then have "2 powr real_of_int (e + 1) = 2 powr (1 + real_of_int e)" by (rule arg_cong)
    also have "\<dots> = 2 powr 1 * 2 powr real_of_int e" by (rule powr_add)
    finally have p: "2 powr real_of_int (e + 1) = 2 * 2 powr real_of_int e" by simp
    have "x = real_of_int (m div 2) * 2 powr real_of_int (e + 1)"
      using x p m2 by simp
    then show ?thesis using lt e by (intro fl_exact_core [of x "m div 2" "e + 1"]) simp_all
  qed
qed

lemma fl_idem: "fl (fl x) = fl x"
  by (rule fl_exact) (rule fl_is_float)

lemma is_float_of_int: "\<bar>z\<bar> \<le> 2 ^ 53 \<Longrightarrow> is_float (real_of_int z)"
  unfolding is_float_def by (intro exI [of _ z] exI [of _ 0]) simp

lemma fl_of_int: "\<bar>z\<bar> \<le> 2 ^ 53 \<Longrightarrow> fl (real_of_int z) = real_of_int z"
  by (rule fl_exact) (rule is_float_of_int)

lemma fl_1: "fl 1 = 1"
  using fl_of_int [of 1] by simp






subsection \<open>Forecast\<close>













subsection \<open>Contributing factors\<close>






subsection \<open>Recommendations\<close>

lemma build_recommendations_eq:
  "build_recommendations f = (if triggered f = [] then [fallback_message] else triggered f)"
  by (simp add: build_recommendations_def triggered_def Let_def stress_message_def
      activity_message_def sleep_message_def diet_message_def fallback_message_def)

lemma triggered_distinct: "distinct (triggered f)"
  by (simp add: triggered_def stress_message_def
      activity_message_def sleep_message_def diet_message_def)

lemma fallback_not_triggered: "triggered f \<noteq> [fallback_message]"
  by (simp add: triggered_def stress_message_def
      activity_message_def sleep_message_def diet_message_def fallback_message_def)

lemma triggered_empty:
  "triggered f = [] \<longleftrightarrow>
     \<not> heart_rate_mean f > 80 \<and> \<not> steps_mean f < 7000 \<and> \<not> sleep_hours_mean f < 7 \<and>
     \<not> calories_mean f > 2500"
  by (simp add: triggered_def)

text \<open>
  C6. For every feature vector, the recommendations are the messages triggered by
  heart_rate_mean > 80, steps_mean < 7000, sleep_hours_mean < 7, calories_mean > 2500, in
  that order, or the single fallback message when none is triggered; the list is never
  empty, holds no message twice, and is exactly the fallback message if and only if none
  of the four conditions holds.
\<close>

theorem recommendations_fixed_order:
  "recommendations (prediction (generate_prediction_response now s f uid)) =
     (if triggered f = [] then [fallback_message] else triggered f) \<and>
   recommendations (prediction (generate_prediction_response now s f uid)) \<noteq> [] \<and>
   distinct (recommendations (prediction (generate_prediction_response now s f uid))) \<and>
   (recommendations (prediction (generate_prediction_response now s f uid)) = [fallback_message]
      \<longleftrightarrow> \<not> heart_rate_mean f > 80 \<and> \<not> steps_mean f < 7000 \<and> \<not> sleep_hours_mean f < 7 \<and>
          \<not> calories_mean f > 2500)"
proof -
  have r: "recommendations (prediction (generate_prediction_response now s f uid)) =
     (if triggered f = [] then [fallback_message] else triggered f)"
    by (simp add: generate_prediction_response_def build_recommendations_eq)
  show ?thesis
    unfolding r using triggered_distinct [of f] fallback_not_triggered [of f] triggered_empty [of f]
    by (cases "triggered f = []") simp_all
qed

subsection \<open>What the prediction reads\<close>

text \<open>
  C10. Two feature vectors that agree on heart_rate_mean, steps_mean, sleep_hours_mean,
  calories_mean, age, trend_heart_rate, trend_steps and trend_sleep give, for the same
  reference instant, the same response (risk_score, risk_level, confidence,
  contributing_factors, recommendations and predicted_trend): the other nine fields
  have no influence.
\<close>

theorem predict_depends_on_eight_fields:
  "heart_rate_mean f = heart_rate_mean g \<Longrightarrow> steps_mean f = steps_mean g \<Longrightarrow>
   sleep_hours_mean f = sleep_hours_mean g \<Longrightarrow> calories_mean f = calories_mean g \<Longrightarrow>
   age f = age g \<Longrightarrow> trend_heart_rate f = trend_heart_rate g \<Longrightarrow>
   trend_steps f = trend_steps g \<Longrightarrow> trend_sleep f = trend_sleep g \<Longrightarrow>
   predict now f uid = predict now g uid"
proof -
  assume a: "heart_rate_mean f = heart_rate_mean g" "steps_mean f = steps_mean g"
   "sleep_hours_mean f = sleep_hours_mean g" "calories_mean f = calories_mean g"
   "age f = age g" "trend_heart_rate f = trend_heart_rate g"
   "trend_steps f = trend_steps g" "trend_sleep f = trend_sleep g"
  have score: "calculate_risk_score f = calculate_risk_score g"
    by (simp add: calculate_risk_score_def trend_penalties_def a)
  have factors: "build_contributing_factors f = build_contributing_factors g"
    by (simp add: build_contributing_factors_def heart_rate_factor_def steps_factor_def
        sleep_factor_def calories_factor_def a)
  have recs: "build_recommendations f = build_recommendations g"
    by (simp add: build_recommendations_def a)
  have trend: "trend_entry now r f i = trend_entry now r g i" for r i
    by (simp add: trend_entry_def a)
  show ?thesis
    by (simp add: predict_def generate_prediction_response_def score factors recs trend)
qed

theorem predict_depends_on_eight_fields_witness:
  "example_features_other \<noteq> example_features \<and>
   predict example_now example_features_other ''u1'' = predict example_now example_features ''u1''"
proof -
  have "predict example_now example_features_other ''u1'' = predict example_now example_features ''u1''"
    by (rule predict_depends_on_eight_fields)
       (simp_all add: example_features_other_def example_features_def)
  moreover have "example_features_other \<noteq> example_features"
    by (simp add: example_features_other_def example_features_def)
  ultimately show ?thesis by simp
qed

subsection \<open>Trend\<close>















lemma float_of_int_eq_0: "float_of_int z = 0 \<longleftrightarrow> z = 0"
proof
  assume z: "float_of_int z = 0"
  show "z = 0"
  proof (rule ccontr)
    assume "z \<noteq> 0"
    then consider "1 \<le> z" | "z \<le> - 1" by linarith
    then show False
    proof cases
      case 1
      then have "fl 1 \<le> fl (real_of_int z)" by (intro fl_mono) simp
      then show False using z by (simp add: float_of_int_def fl_1)
    next
      case 2
      then have "fl (real_of_int z) \<le> fl (- 1)" by (intro fl_mono) simp
      then show False using z by (simp add: float_of_int_def fl_neg fl_1)
    qed
  qed
next
  assume "z = 0"
  then show "float_of_int z = 0" by (simp add: float_of_int_def fl_0)
qed

lemma compute_trend_returns: "\<exists>t. compute_trend ys = Inr t"
  by (simp add: compute_trend_def Let_def float_truediv_def float_of_int_eq_0)

















subsection \<open>Feature extraction in closed form\<close>

lemma mean_closed: "mean xs = Inr (mean_value xs)"
  by (simp add: mean_def mean_value_def py_truediv_def)

lemma sum_sq_dev_closed:
  "sum_sq_dev avg xs acc =
     (if \<exists>x\<in>set xs. float_overflow \<le> (x - avg) * (x - avg) then Inl OverflowError
      else Inr (acc + (\<Sum>x\<leftarrow>xs. (x - avg) * (x - avg))))"
  by (induction xs arbitrary: acc) (auto simp: bind_err_def py_pow2_def)

lemma std_closed:
  "std xs = (if overflows xs then Inl OverflowError else Inr (std_value xs))"
proof (cases "xs = []")
  case True
  then show ?thesis by (simp add: std_def std_value_def overflows_def)
next
  case False
  then show ?thesis
    by (simp add: std_def mean_closed sum_sq_dev_closed bind_err_def py_truediv_def
        overflows_def std_value_def)
qed

lemma max_closed: "(if xs \<noteq> [] then py_max xs else Inr 0) = Inr (max_value xs)"
proof (cases xs)
  case Nil
  then show ?thesis by (simp add: max_value_def)
next
  case (Cons x rest)
  then show ?thesis
    using Max.set_eq_fold [of x rest] by (simp add: py_max_def max_value_def)
qed

lemma min_closed: "(if xs \<noteq> [] then py_min xs else Inr 0) = Inr (min_value xs)"
proof (cases xs)
  case Nil
  then show ?thesis by (simp add: min_value_def)
next
  case (Cons x rest)
  then show ?thesis
    using Min.set_eq_fold [of x rest] by (simp add: py_min_def min_value_def)
qed

lemma trend_closed: "compute_trend ys = Inr (trend_value ys)"
  using compute_trend_returns [of ys] by (auto simp: trend_value_def)

lemma trend_value_short: "length ys < 2 \<Longrightarrow> trend_value ys = 0"
  by (simp add: trend_value_def compute_trend_def)

lemma compute_features_closed:
  "compute_features metrics p =
     (if raises metrics then Inl OverflowError else Inr (features_of metrics p))"
  unfolding compute_features_def Let_def mean_closed std_closed max_closed min_closed trend_closed
  by (simp add: bind_err_def raises_def features_of_def)

lemma float_overflow_pos: "0 < float_overflow"
proof -
  have "(2::real) ^ 970 < 2 ^ 1024" by (rule power_strict_increasing) simp_all
  then show ?thesis by (simp add: float_overflow_def)
qed

lemma abs_sum_list_le:
  "\<forall>x\<in>set xs. \<bar>x\<bar> \<le> (B::real) \<Longrightarrow> \<bar>sum_list xs\<bar> \<le> real (length xs) * B"
proof (induction xs)
  case Nil
  show ?case by simp
next
  case (Cons x xs)
  then have "\<bar>sum_list xs\<bar> \<le> real (length xs) * B" and "\<bar>x\<bar> \<le> B" by simp_all
  then show ?case by (simp add: algebra_simps)
qed

lemma abs_mean_value_le:
  assumes "\<forall>x\<in>set xs. \<bar>x\<bar> \<le> (B::real)" and "0 \<le> B"
  shows "\<bar>mean_value xs\<bar> \<le> B"
proof (cases "xs = []")
  case True
  then show ?thesis using assms by (simp add: mean_value_def)
next
  case False
  then have n: "0 < real (length xs)" by simp
  have "\<bar>sum_list xs\<bar> / real (length xs) \<le> (real (length xs) * B) / real (length xs)"
    using abs_sum_list_le [OF assms(1)] n by (intro divide_right_mono) simp_all
  then show ?thesis using False n by (simp add: mean_value_def)
qed

lemma in_range_no_overflow:
  assumes b: "\<forall>x\<in>set xs. \<bar>x\<bar> \<le> 2 ^ 510"
  shows "\<not> overflows xs"
proof
  assume "overflows xs"
  then obtain x where x: "x \<in> set xs"
    and o: "float_overflow \<le> (x - mean_value xs) * (x - mean_value xs)"
    by (auto simp: overflows_def)
  have "\<bar>mean_value xs\<bar> \<le> 2 ^ 510" using b by (intro abs_mean_value_le) simp_all
  moreover have "\<bar>x\<bar> \<le> 2 ^ 510" using b x by blast
  ultimately have d: "\<bar>x - mean_value xs\<bar> \<le> 2 ^ 511" by (simp add: abs_le_iff)
  have "(x - mean_value xs) * (x - mean_value xs) = \<bar>x - mean_value xs\<bar> * \<bar>x - mean_value xs\<bar>"
    by simp
  also have "\<dots> \<le> 2 ^ 511 * 2 ^ 511"
    using d by (intro mult_mono) simp_all
  also have "\<dots> = (2::real) ^ 1022" by (simp add: power_add [symmetric])
  finally have le: "(x - mean_value xs) * (x - mean_value xs) \<le> 2 ^ 1022" .
  have "(2::real) ^ 1022 + 2 ^ 970 < 2 ^ 1022 + 2 ^ 1022"
    by (intro add_strict_left_mono power_strict_increasing) simp_all
  also have "\<dots> \<le> (2::real) ^ 1024" by simp
  finally have "(2::real) ^ 1022 < float_overflow" by (simp add: float_overflow_def)
  with le o show False by linarith
qed

lemma compute_features_in_range:
  assumes "\<forall>m\<in>set ms. \<bar>metric_value m\<bar> \<le> 2 ^ 510"
  shows "compute_features ms p = Inr (features_of ms p)"
proof -
  have "\<not> overflows (series ty ms)" for ty
    using assms by (intro in_range_no_overflow) (auto simp: series_def)
  then show ?thesis by (simp add: compute_features_closed raises_def)
qed

lemma empty_series_zero:
  assumes "compute_features ms p = Inr f"
  shows "(series ''heart_rate'' ms = [] \<longrightarrow>
            heart_rate_mean f = 0 \<and> heart_rate_std f = 0 \<and> heart_rate_max f = 0 \<and>
            heart_rate_min f = 0 \<and> trend_heart_rate f = 0) \<and>
         (series ''steps'' ms = [] \<longrightarrow>
            steps_mean f = 0 \<and> steps_std f = 0 \<and> steps_total f = 0 \<and> trend_steps f = 0) \<and>
         (series ''sleep'' ms = [] \<longrightarrow>
            sleep_hours_mean f = 0 \<and> sleep_hours_std f = 0 \<and> trend_sleep f = 0) \<and>
         (series ''calories'' ms = [] \<longrightarrow> calories_mean f = 0 \<and> calories_std f = 0)"
proof -
  from assms have "f = features_of ms p"
    by (simp add: compute_features_closed split: if_splits)
  then show ?thesis
    by (simp add: features_of_def mean_value_def std_value_def max_value_def min_value_def
        trend_value_short)
qed

subsection \<open>When feature extraction returns\<close>

text \<open>
  C3, as amended. \<open>compute_features\<close> returns a feature vector for every record list whose
  metric values have magnitude at most \<open>2^510\<close>, whatever the profile; the only exception
  it can raise at all is \<open>OverflowError\<close>. Whenever it returns, a metric type with an empty
  sub-series has every aggregate equal to 0 (mean, std, and for heart rate max and min,
  for steps the total) and trend 0.
\<close>

theorem compute_features_total_in_range:
  "((\<forall>m\<in>set ms. \<bar>metric_value m\<bar> \<le> 2 ^ 510) \<longrightarrow> (\<exists>f. compute_features ms p = Inr f)) \<and>
   (\<forall>e. compute_features ms p = Inl e \<longrightarrow> e = OverflowError) \<and>
   (\<forall>f. compute_features ms p = Inr f \<longrightarrow>
      (series ''heart_rate'' ms = [] \<longrightarrow>
         heart_rate_mean f = 0 \<and> heart_rate_std f = 0 \<and> heart_rate_max f = 0 \<and>
         heart_rate_min f = 0 \<and> trend_heart_rate f = 0) \<and>
      (series ''steps'' ms = [] \<longrightarrow>
         steps_mean f = 0 \<and> steps_std f = 0 \<and> steps_total f = 0 \<and> trend_steps f = 0) \<and>
      (series ''sleep'' ms = [] \<longrightarrow>
         sleep_hours_mean f = 0 \<and> sleep_hours_std f = 0 \<and> trend_sleep f = 0) \<and>
      (series ''calories'' ms = [] \<longrightarrow> calories_mean f = 0 \<and> calories_std f = 0))"
proof (intro conjI allI impI)
  show "\<exists>f. compute_features ms p = Inr f" if "\<forall>m\<in>set ms. \<bar>metric_value m\<bar> \<le> 2 ^ 510"
    using compute_features_in_range [OF that, of p] by blast
  show "e = OverflowError" if "compute_features ms p = Inl e" for e
    using that by (simp add: compute_features_closed split: if_splits)
next
  fix f
  assume r: "compute_features ms p = Inr f"
  note z = empty_series_zero [OF r]
  show "heart_rate_mean f = 0" "heart_rate_std f = 0" "heart_rate_max f = 0"
    "heart_rate_min f = 0" "trend_heart_rate f = 0" if "series ''heart_rate'' ms = []"
    using z that by blast+
  show "steps_mean f = 0" "steps_std f = 0" "steps_total f = 0" "trend_steps f = 0"
    if "series ''steps'' ms = []"
    using z that by blast+
  show "sleep_hours_mean f = 0" "sleep_hours_std f = 0" "trend_sleep f = 0"
    if "series ''sleep'' ms = []"
    using z that by blast+
  show "calories_mean f = 0" "calories_std f = 0" if "series ''calories'' ms = []"
    using z that by blast+
qed

theorem compute_features_total_in_range_witness:
  "\<bar>metric_value steps_record\<bar> \<le> 2 ^ 510 \<and> \<bar>metric_value weight_record\<bar> \<le> 2 ^ 510 \<and>
   series ''heart_rate'' [steps_record, weight_record] = [] \<and>
   series ''sleep'' [steps_record, weight_record] = [] \<and>
   series ''calories'' [steps_record, weight_record] = [] \<and>
   (\<exists>f. compute_features [steps_record, weight_record] absent_profile = Inr f \<and>
        heart_rate_mean f = 0 \<and> heart_rate_std f = 0 \<and> heart_rate_max f = 0 \<and>
        heart_rate_min f = 0 \<and> trend_heart_rate f = 0 \<and>
        sleep_hours_mean f = 0 \<and> sleep_hours_std f = 0 \<and> trend_sleep f = 0 \<and>
        calories_mean f = 0 \<and> calories_std f = 0)"
proof -
  have b: "\<forall>m\<in>set [steps_record, weight_record]. \<bar>metric_value m\<bar> \<le> 2 ^ 510"
  proof -
    have "(8000::real) \<le> 2 ^ 13" and "(80::real) \<le> 2 ^ 13" by simp_all
    moreover have "(2::real) ^ 13 \<le> 2 ^ 510" by (rule power_increasing) simp_all
    ultimately show ?thesis by (simp add: steps_record_def weight_record_def)
  qed
  have s: "series ''heart_rate'' [steps_record, weight_record] = []"
    "series ''sleep'' [steps_record, weight_record] = []"
    "series ''calories'' [steps_record, weight_record] = []"
    by (simp_all add: series_def steps_record_def weight_record_def)
  from b have b': "\<bar>metric_value steps_record\<bar> \<le> 2 ^ 510 \<and> \<bar>metric_value weight_record\<bar> \<le> 2 ^ 510"
    by simp
  from compute_features_total_in_range [of "[steps_record, weight_record]" absent_profile] b b' s
  show ?thesis by blast
qed

text \<open>
  Without the bound on the values the statement fails: on ten well-formed records of which
  one heart rate is \<open>2^600\<close> and another 0, \<^verbatim>\<open>(x - avg) ** 2\<close> in \<^verbatim>\<open>std\<close> is out of range and
  \<open>compute_features\<close> raises.
\<close>

lemma overflows_huge: "overflows [2 ^ 600, 0]"
proof -
  have m: "mean_value [2 ^ 600, 0] = 2 ^ 599"
    by (simp add: mean_value_def)
  have "(2::real) ^ 600 - 2 ^ 599 = 2 ^ 599" by simp
  then have sq: "((2::real) ^ 600 - 2 ^ 599) * (2 ^ 600 - 2 ^ 599) = 2 ^ 1198"
    by (simp add: power_add [symmetric])
  have "float_overflow \<le> (2::real) ^ 1024" by (simp add: float_overflow_def)
  also have "\<dots> \<le> 2 ^ 1198" by (rule power_increasing) simp_all
  finally show ?thesis
    unfolding overflows_def m by (simp add: sq)
qed

theorem compute_features_overflow:
  "compute_features overflow_metrics absent_profile = Inl OverflowError"
proof -
  have "series ''heart_rate'' overflow_metrics = [2 ^ 600, 0]"
    by (simp add: overflow_metrics_def series_def heart_record_def steps_record_def)
  then have "raises overflow_metrics"
    using overflows_huge by (simp add: raises_def)
  then show ?thesis by (simp add: compute_features_closed)
qed

subsection \<open>Gender encoding\<close>

lemma lower_char_eq:
  assumes u: "(65::nat) \<le> of_char u" "of_char u \<le> (90::nat)"
    and l: "(of_char l :: nat) = of_char u + 32"
  shows "lower_char c = l \<longleftrightarrow> c = l \<or> c = u"
proof (cases "(65::nat) \<le> of_char c \<and> of_char c \<le> (90::nat)")
  case True
  then have lt: "of_char c + (32::nat) < 2 ^ 8" by simp
  have "char_of (of_char c + (32::nat)) = l \<longleftrightarrow> take_bit 8 (of_char c + (32::nat)) = (of_char l :: nat)"
    by (rule char_of_eq_iff)
  also have "\<dots> \<longleftrightarrow> of_char c + 32 = (of_char l :: nat)"
    using lt by (simp add: take_bit_nat_eq_self)
  also have "\<dots> \<longleftrightarrow> (of_char c :: nat) = of_char u"
    unfolding l by simp
  also have "\<dots> \<longleftrightarrow> c = u"
    by (rule of_char_eq_iff)
  finally have "lower_char c = l \<longleftrightarrow> c = u"
    using True by (simp add: lower_char_def)
  moreover have "c \<noteq> l"
  proof
    assume "c = l"
    then have "(of_char c :: nat) = of_char u + 32" using l by simp
    then show False using True u by linarith
  qed
  ultimately show ?thesis by simp
next
  case False
  then have "lower_char c = c" unfolding lower_char_def by (simp only: if_False)
  moreover have "c \<noteq> u" using False u by blast
  ultimately show ?thesis by auto
qed

lemma lower_char_m: "lower_char c = CHR ''m'' \<longleftrightarrow> c = CHR ''m'' \<or> c = CHR ''M''"
  by (rule lower_char_eq) simp_all

lemma lower_char_a: "lower_char c = CHR ''a'' \<longleftrightarrow> c = CHR ''a'' \<or> c = CHR ''A''"
  by (rule lower_char_eq) simp_all

lemma lower_char_l: "lower_char c = CHR ''l'' \<longleftrightarrow> c = CHR ''l'' \<or> c = CHR ''L''"
  by (rule lower_char_eq) simp_all

lemma lower_char_e: "lower_char c = CHR ''e'' \<longleftrightarrow> c = CHR ''e'' \<or> c = CHR ''E''"
  by (rule lower_char_eq) simp_all

lemma lower_male: "lower g = ''male'' \<longleftrightarrow> male_spelling g"
proof -
  have "lower g = ''male'' \<longleftrightarrow> list_all2 (\<lambda>c l. lower_char c = l) g ''male''"
    unfolding lower_def by (simp add: list_all2_map1 [symmetric, where P = "(=)"] list.rel_eq)
  also have "\<dots> \<longleftrightarrow> male_spelling g"
    by (simp add: male_spelling_def list_all2_Cons2 lower_char_m lower_char_a lower_char_l
        lower_char_e)
  finally show ?thesis .
qed

text \<open>
  C8. The gender encoding is defined for every profile: an absent gender encodes to 1, a
  present one to 1 if it is \<^verbatim>\<open>male\<close> in any mix of upper and lower case and to 0 otherwise
  (unrecognised values included). The feature vector carries that code, and whether
  \<open>compute_features\<close> raises does not depend on the profile.
\<close>

theorem gender_encoding:
  "(profile_gender p = None \<longrightarrow> gender_code p = 1) \<and>
   (\<forall>g. profile_gender p = Some g \<longrightarrow> gender_code p = (if male_spelling g then 1 else 0)) \<and>
   (\<forall>f. compute_features ms p = Inr f \<longrightarrow> gender_encoded f = gender_code p) \<and>
   ((\<exists>e. compute_features ms p = Inl e) \<longleftrightarrow> (\<exists>e. compute_features ms p' = Inl e))"
proof (intro conjI impI allI)
  show "gender_code p = 1" if "profile_gender p = None"
    using that by (simp add: gender_code_def lower_def lower_char_def)
  show "gender_code p = (if male_spelling g then 1 else 0)" if "profile_gender p = Some g" for g
    using that by (simp add: gender_code_def lower_male)
  show "gender_encoded f = gender_code p" if "compute_features ms p = Inr f" for f
  proof -
    from that have "f = features_of ms p"
      by (simp add: compute_features_closed split: if_splits)
    then show ?thesis by (simp add: features_of_def)
  qed
  show "(\<exists>e. compute_features ms p = Inl e) \<longleftrightarrow> (\<exists>e. compute_features ms p' = Inl e)"
    by (simp add: compute_features_closed)
qed

theorem gender_encoding_witness:
  "profile_gender absent_profile = None \<and> gender_code absent_profile = 1 \<and>
   profile_gender (absent_profile \<lparr> profile_gender := Some ''MaLe'' \<rparr>) = Some ''MaLe'' \<and>
   gender_code (absent_profile \<lparr> profile_gender := Some ''MaLe'' \<rparr>) = 1 \<and>
   profile_gender (absent_profile \<lparr> profile_gender := Some ''other'' \<rparr>) = Some ''other'' \<and>
   gender_code (absent_profile \<lparr> profile_gender := Some ''other'' \<rparr>) = 0 \<and>
   compute_features [heart_record 72] (absent_profile \<lparr> profile_gender := Some ''female'' \<rparr>)
     = Inr (features_of [heart_record 72] (absent_profile \<lparr> profile_gender := Some ''female'' \<rparr>)) \<and>
   gender_encoded (features_of [heart_record 72]
     (absent_profile \<lparr> profile_gender := Some ''female'' \<rparr>)) = 0"
proof -
  have c: "compute_features [heart_record 72] (absent_profile \<lparr> profile_gender := Some ''female'' \<rparr>)
     = Inr (features_of [heart_record 72] (absent_profile \<lparr> profile_gender := Some ''female'' \<rparr>))"
    by (rule compute_features_in_range) (simp add: heart_record_def)
  have f: "gender_code (absent_profile \<lparr> profile_gender := Some ''female'' \<rparr>) = 0"
    using gender_encoding [of "absent_profile \<lparr> profile_gender := Some ''female'' \<rparr>"]
    by (simp add: absent_profile_def male_spelling_def)
  show ?thesis
    using gender_encoding [of absent_profile]
      gender_encoding [of "absent_profile \<lparr> profile_gender := Some ''MaLe'' \<rparr>"]
      gender_encoding [of "absent_profile \<lparr> profile_gender := Some ''other'' \<rparr>"]
      gender_encoding [of "absent_profile \<lparr> profile_gender := Some ''female'' \<rparr>"
        "[heart_record 72]"] c f
    by (simp add: absent_profile_def male_spelling_def)
qed

subsection \<open>Records of an unknown metric type\<close>

lemma series_skip:
  "metricType m \<noteq> ty \<Longrightarrow> series ty (xs @ m # ys) = series ty (xs @ ys)"
  by (simp add: series_def)

lemma unique_days_image:
  "unique_days ms = card ((\<lambda>r. day_of (timestamp r)) ` set ms)"
  by (simp add: unique_days_def)

lemma unique_days_instants:
  fixes ms :: "metric list"
  assumes "map timestamp ms = map Instant ds"
  shows "unique_days ms = card (ordinal ` set ds)"
proof -
  have "map (\<lambda>r. day_of (timestamp r)) ms = map day_of (map timestamp ms)"
    by simp
  also have "\<dots> = map (\<lambda>d. Date (ordinal d)) ds"
    unfolding assms by (simp add: day_of_def)
  finally have "set (map (\<lambda>r. day_of (timestamp r)) ms) = Date ` ordinal ` set ds"
    by (simp add: image_image)
  then have "unique_days ms = card (Date ` ordinal ` set ds)"
    by (simp add: unique_days_def)
  also have "\<dots> = card (ordinal ` set ds)"
    by (rule card_image) (simp add: inj_on_def)
  finally show ?thesis .
qed


lemma day_keys_split:
  "(\<lambda>r. day_of (timestamp r)) ` set ms = Date ` datetime_days ms \<union> Prefix ` text_days ms"
proof (induction ms)
  case Nil
  show ?case by (simp add: datetime_days_def text_days_def)
next
  case (Cons m ms)
  then show ?case
    by (cases "timestamp m") (auto simp: datetime_days_def text_days_def day_of_def)
qed

lemma unique_days_split:
  "unique_days ms = card (datetime_days ms) + card (text_days ms)"
proof -
  have f: "finite (datetime_days ms)" "finite (text_days ms)"
    by (simp_all only: datetime_days_def text_days_def finite_set)
  have "unique_days ms = card (Date ` datetime_days ms \<union> Prefix ` text_days ms)"
    by (simp add: unique_days_image day_keys_split)
  also have "\<dots> = card (Date ` datetime_days ms) + card (Prefix ` text_days ms)"
    using f by (intro card_Un_disjoint) auto
  also have "card (Date ` datetime_days ms) = card (datetime_days ms)"
    by (rule card_image) (simp add: inj_on_def)
  also have "card (Prefix ` text_days ms) = card (text_days ms)"
    by (rule card_image) (simp add: inj_on_def)
  finally show ?thesis .
qed

lemma unique_days_texts:
  fixes ms :: "metric list"
  assumes "map timestamp ms = map Text ss"
  shows "unique_days ms = card (take 10 ` set ss)"
    and "unique_days_realdata ms = card (take 10 ` set ss)"
proof -
  have "map (\<lambda>r. day_of (timestamp r)) ms = map day_of (map timestamp ms)"
    by simp
  also have "\<dots> = map (\<lambda>s. Prefix (take 10 s)) ss"
    unfolding assms by (simp add: day_of_def)
  finally have "set (map (\<lambda>r. day_of (timestamp r)) ms) = Prefix ` take 10 ` set ss"
    by (simp add: image_image)
  then have "unique_days ms = card (Prefix ` take 10 ` set ss)"
    by (simp add: unique_days_def)
  also have "\<dots> = card (take 10 ` set ss)"
    by (rule card_image) (simp add: inj_on_def)
  finally show "unique_days ms = card (take 10 ` set ss)" .
  have "map (\<lambda>r. day_text (timestamp r)) ms = map day_text (map timestamp ms)"
    by simp
  also have "\<dots> = map (take 10) ss"
    unfolding assms by (simp add: day_text_def)
  finally show "unique_days_realdata ms = card (take 10 ` set ss)"
    by (simp add: unique_days_realdata_def)
qed

lemma unique_days_realdata_le: "unique_days_realdata ms \<le> unique_days ms"
proof -
  let ?render = "\<lambda>k. case k of Date n \<Rightarrow> iso_date n | Prefix s \<Rightarrow> s"
  have "day_text ts = ?render (day_of ts)" for ts
    by (cases ts) (simp_all add: day_text_def day_of_def)
  then have "(\<lambda>r. day_text (timestamp r)) ` set ms = ?render ` (\<lambda>r. day_of (timestamp r)) ` set ms"
    by (simp add: image_image)
  then have "unique_days_realdata ms = card (?render ` (\<lambda>r. day_of (timestamp r)) ` set ms)"
    by (simp add: unique_days_realdata_def)
  also have "\<dots> \<le> card ((\<lambda>r. day_of (timestamp r)) ` set ms)"
    by (rule card_image_le) simp
  finally show ?thesis by (simp add: unique_days_image)
qed

text \<open>
  What holds of C9 on every list. A record whose metricType is none of heart_rate, steps, sleep, calories is in none of
  the four sub-series: with or without it, \<open>compute_features\<close> raises alike and returns the
  same vector but for days_with_data, in which its timestamp counts. In \<^verbatim>\<open>local_server.py\<close>
  days_with_data is the number of distinct dates of the datetime timestamps plus the
  number of distinct 10-character prefixes of the string timestamps, over all records
  whatever their type: the number of distinct calendar dates when every timestamp is a
  datetime, the number of distinct prefixes when every timestamp is a string. In
  \<^verbatim>\<open>local_server_realdata.py\<close> it is the number of distinct 10-character prefixes of
  \<^verbatim>\<open>str(timestamp)\<close>: the same number when every timestamp is a string, and never a greater
  one.
\<close>

theorem unknown_metric_type:
  fixes m :: metric and xs ys ms :: "metric list"
  shows
  "(metricType m \<notin> {''heart_rate'', ''steps'', ''sleep'', ''calories''} \<longrightarrow>
     (\<forall>ty\<in>{''heart_rate'', ''steps'', ''sleep'', ''calories''}.
        series ty (xs @ m # ys) = series ty (xs @ ys)) \<and>
     compute_features (xs @ m # ys) p =
       (case compute_features (xs @ ys) p of
          Inl e \<Rightarrow> Inl e
        | Inr f \<Rightarrow> Inr (f \<lparr> days_with_data := unique_days (xs @ m # ys) \<rparr>)) \<and>
     unique_days (xs @ m # ys) =
       card (insert (day_of (timestamp m)) ((\<lambda>r. day_of (timestamp r)) ` set (xs @ ys)))) \<and>
   (\<forall>f. compute_features ms p = Inr f \<longrightarrow>
      days_with_data f = card (datetime_days ms) + card (text_days ms)) \<and>
   (map timestamp ms = map Instant ds \<longrightarrow> unique_days ms = card (ordinal ` set ds)) \<and>
   (map timestamp ms = map Text ss \<longrightarrow>
      unique_days ms = card (take 10 ` set ss) \<and> unique_days_realdata ms = unique_days ms) \<and>
   unique_days_realdata ms \<le> unique_days ms"
proof (intro impI conjI ballI allI)
  assume m: "metricType m \<notin> {''heart_rate'', ''steps'', ''sleep'', ''calories''}"
  show "series ty (xs @ m # ys) = series ty (xs @ ys)"
    if "ty \<in> {''heart_rate'', ''steps'', ''sleep'', ''calories''}" for ty
    using m that by (intro series_skip) blast
  have s: "series ''heart_rate'' (xs @ m # ys) = series ''heart_rate'' (xs @ ys)"
    "series ''steps'' (xs @ m # ys) = series ''steps'' (xs @ ys)"
    "series ''sleep'' (xs @ m # ys) = series ''sleep'' (xs @ ys)"
    "series ''calories'' (xs @ m # ys) = series ''calories'' (xs @ ys)"
    using m by (simp_all add: series_skip)
  have r: "raises (xs @ m # ys) = raises (xs @ ys)"
    unfolding raises_def s ..
  have f: "features_of (xs @ m # ys) p
      = (features_of (xs @ ys) p) \<lparr> days_with_data := unique_days (xs @ m # ys) \<rparr>"
    unfolding features_of_def s by simp
  show "compute_features (xs @ m # ys) p =
       (case compute_features (xs @ ys) p of
          Inl e \<Rightarrow> Inl e
        | Inr f \<Rightarrow> Inr (f \<lparr> days_with_data := unique_days (xs @ m # ys) \<rparr>))"
    unfolding compute_features_closed r f by simp
  show "unique_days (xs @ m # ys) =
       card (insert (day_of (timestamp m)) ((\<lambda>r. day_of (timestamp r)) ` set (xs @ ys)))"
    by (simp add: unique_days_image image_Un)
next
  fix f
  assume "compute_features ms p = Inr f"
  then have "f = features_of ms p"
    by (simp add: compute_features_closed split: if_splits)
  then show "days_with_data f = card (datetime_days ms) + card (text_days ms)"
    by (simp add: features_of_def unique_days_split)
next
  assume "map timestamp ms = map Instant ds"
  then show "unique_days ms = card (ordinal ` set ds)"
    by (rule unique_days_instants)
next
  assume t: "map timestamp ms = map Text ss"
  then show "unique_days ms = card (take 10 ` set ss)"
    by (rule unique_days_texts)
  from t show "unique_days_realdata ms = unique_days ms"
    by (simp add: unique_days_texts)
next
  show "unique_days_realdata ms \<le> unique_days ms"
    by (rule unique_days_realdata_le)
qed

theorem unknown_metric_type_witness:
  "metricType weight_record \<notin> {''heart_rate'', ''steps'', ''sleep'', ''calories''} \<and>
   series ''heart_rate'' ([heart_record 72] @ weight_record # [steps_record]) = [72] \<and>
   series ''steps'' ([heart_record 72] @ weight_record # [steps_record]) = [8000] \<and>
   compute_features ([heart_record 72] @ weight_record # [steps_record]) absent_profile =
     Inr ((features_of ([heart_record 72] @ [steps_record]) absent_profile)
            \<lparr> days_with_data := 2 \<rparr>) \<and>
   days_with_data (features_of ([heart_record 72] @ [steps_record]) absent_profile) = 1 \<and>
   compute_features [morning_record, evening_record, night_record] absent_profile
     = Inr (features_of [morning_record, evening_record, night_record] absent_profile) \<and>
   datetime_days [morning_record, evening_record, night_record] = {738954} \<and>
   text_days [morning_record, evening_record, night_record] = {''2024-03-09''} \<and>
   days_with_data (features_of [morning_record, evening_record, night_record] absent_profile) = 2 \<and>
   map timestamp [heart_record 72, weight_record]
     = map Instant [\<lparr> ordinal = 739000, microsecond_of_day = 0 \<rparr>,
                    \<lparr> ordinal = 739001, microsecond_of_day = 0 \<rparr>] \<and>
   unique_days [heart_record 72, weight_record] = 2 \<and>
   map timestamp [evening_record, night_record]
     = map Text [''2024-03-09T20:00:00'', ''2024-03-09T23:30:00''] \<and>
   unique_days [evening_record, night_record] = 1 \<and>
   unique_days_realdata [evening_record, night_record] = 1 \<and>
   unique_days_realdata [morning_record, evening_record, night_record] \<le> 2"
proof -
  have w: "metricType weight_record \<notin> {''heart_rate'', ''steps'', ''sleep'', ''calories''}"
    by (simp add: weight_record_def)
  have c: "compute_features ([heart_record 72] @ [steps_record]) absent_profile
     = Inr (features_of ([heart_record 72] @ [steps_record]) absent_profile)"
    by (rule compute_features_in_range) (simp add: heart_record_def steps_record_def)
  have u: "card (insert (day_of (timestamp weight_record))
      ((\<lambda>r. day_of (timestamp r)) ` set ([heart_record 72] @ [steps_record]))) = 2"
    by (simp add: weight_record_def heart_record_def steps_record_def day_of_def)
  have d: "days_with_data (features_of ([heart_record 72] @ [steps_record]) absent_profile) = 1"
    by (simp add: features_of_def unique_days_def heart_record_def steps_record_def day_of_def)
  have s: "series ''heart_rate'' ([heart_record 72] @ [steps_record]) = [72]"
    "series ''steps'' ([heart_record 72] @ [steps_record]) = [8000]"
    by (simp_all add: series_def heart_record_def steps_record_def)
  from unknown_metric_type [where m = weight_record and xs = "[heart_record 72]"
      and ys = "[steps_record]" and p = absent_profile] w
  have skip: "series ''heart_rate'' ([heart_record 72] @ weight_record # [steps_record]) = [72] \<and>
   series ''steps'' ([heart_record 72] @ weight_record # [steps_record]) = [8000] \<and>
   compute_features ([heart_record 72] @ weight_record # [steps_record]) absent_profile =
     Inr ((features_of ([heart_record 72] @ [steps_record]) absent_profile)
            \<lparr> days_with_data := 2 \<rparr>)"
    unfolding c u using s by simp
  have c3: "compute_features [morning_record, evening_record, night_record] absent_profile
     = Inr (features_of [morning_record, evening_record, night_record] absent_profile)"
    by (rule compute_features_in_range)
      (simp add: morning_record_def evening_record_def night_record_def)
  have dd: "datetime_days [morning_record, evening_record, night_record] = {738954}"
    by (simp add: datetime_days_def morning_record_def evening_record_def night_record_def)
  have td: "text_days [morning_record, evening_record, night_record] = {''2024-03-09''}"
    by (simp add: text_days_def morning_record_def evening_record_def night_record_def)
  from unknown_metric_type [where ms = "[morning_record, evening_record, night_record]"
      and p = absent_profile] c3
  have mixed: "days_with_data (features_of [morning_record, evening_record, night_record]
      absent_profile) = 2"
    unfolding dd td by simp
  have ti: "map timestamp [heart_record 72, weight_record]
     = map Instant [\<lparr> ordinal = 739000, microsecond_of_day = 0 \<rparr>,
                    \<lparr> ordinal = 739001, microsecond_of_day = 0 \<rparr>]"
    by (simp add: heart_record_def weight_record_def)
  from unknown_metric_type [where ms = "[heart_record 72, weight_record]"
      and ds = "[\<lparr> ordinal = 739000, microsecond_of_day = 0 \<rparr>,
                 \<lparr> ordinal = 739001, microsecond_of_day = 0 \<rparr>]"] ti
  have inst: "unique_days [heart_record 72, weight_record] = 2"
    by simp
  have tt: "map timestamp [evening_record, night_record]
     = map Text [''2024-03-09T20:00:00'', ''2024-03-09T23:30:00'']"
    by (simp add: evening_record_def night_record_def)
  from unknown_metric_type [where ms = "[evening_record, night_record]"
      and ss = "[''2024-03-09T20:00:00'', ''2024-03-09T23:30:00'']"] tt
  have strs: "unique_days [evening_record, night_record] = 1 \<and>
      unique_days_realdata [evening_record, night_record] = 1"
    by simp
  have u3: "unique_days [morning_record, evening_record, night_record] = 2"
    by (simp add: unique_days_split dd td)
  from unknown_metric_type [where ms = "[morning_record, evening_record, night_record]"]
  have le: "unique_days_realdata [morning_record, evening_record, night_record] \<le> 2"
    unfolding u3 by simp
  show ?thesis using w skip d c3 dd td mixed ti inst tt strs le by simp
qed


end
